theory Spec2Isabelle
  imports Main
begin

section \<open>JavaScript strings and the regular expressions of \<open>oc-install.ts\<close>\<close>

text \<open>
  Strings are character lists. A value that the TypeScript code may hold as
  \<open>null\<close> or \<open>undefined\<close> is a \<open>string option\<close>; \<open>falsy\<close> is the test
  \<open>!x\<close> on such a value.
\<close>

definition falsy :: "string option \<Rightarrow> bool" where
  "falsy x = (case x of None \<Rightarrow> True | Some s \<Rightarrow> s = [])"

text \<open>A template literal prints a missing value as the text \<open>undefined\<close>.\<close>

definition render :: "string option \<Rightarrow> string" where
  "render x = (case x of None \<Rightarrow> ''undefined'' | Some s \<Rightarrow> s)"

definition isDigit :: "char \<Rightarrow> bool" where
  "isDigit c = (48 \<le> (of_char c :: nat) \<and> (of_char c :: nat) \<le> 57)"

text \<open>
  The three patterns of the source use character classes, the quantifier \<open>+\<close>
  and a trailing lookahead only, so a pattern is a list of atoms.
  \<open>AnyChar\<close> is the unescaped dot, which matches every character but a line
  terminator.
\<close>

datatype cls = Digit | Lit char | AnyChar

fun inClass :: "cls \<Rightarrow> char \<Rightarrow> bool" where
  "inClass Digit c = isDigit c"
| "inClass (Lit d) c = (c = d)"
| "inClass AnyChar c = (c \<noteq> CHR 0x0A \<and> c \<noteq> CHR 0x0D)"

datatype atom = One cls | Plus cls | Ahead cls

text \<open>
  \<open>matchHere r s\<close> matches the pattern at the start of \<open>s\<close> and returns the
  matched text. \<open>Plus\<close> is greedy: it first tries to take one more character,
  and gives characters back only when the rest of the pattern fails.
\<close>

fun matchHere :: "atom list \<Rightarrow> string \<Rightarrow> string option" where
  "matchHere [] s = Some []"
| "matchHere (Ahead k # r) [] = None"
| "matchHere (Ahead k # r) (c # s) =
     (if inClass k c then matchHere r (c # s) else None)"
| "matchHere (One k # r) [] = None"
| "matchHere (One k # r) (c # s) =
     (if inClass k c then map_option (Cons c) (matchHere r s) else None)"
| "matchHere (Plus k # r) [] = None"
| "matchHere (Plus k # r) (c # s) =
     (if inClass k c
      then (case matchHere (Plus k # r) s of
              Some m \<Rightarrow> Some (c # m)
            | None \<Rightarrow> map_option (Cons c) (matchHere r s))
      else None)"

text \<open>
  \<open>RegExp.exec\<close> without the global flag: the match at the leftmost start
  position, element 0 of the result array, or \<open>None\<close> for \<open>null\<close>.
\<close>

fun exec :: "atom list \<Rightarrow> string \<Rightarrow> string option" where
  "exec r [] = matchHere r []"
| "exec r (c # s) =
     (case matchHere r (c # s) of Some m \<Rightarrow> Some m | None \<Rightarrow> exec r s)"

text \<open>\<^verbatim>\<open>new RegExp('\\d+(?=\\.)')\<close>\<close>

definition reMajor :: "atom list" where
  "reMajor = [Plus Digit, Ahead (Lit CHR ''.'')]"

text \<open>\<^verbatim>\<open>new RegExp('\\d+\\.\\d+(?=\\.)')\<close>\<close>

definition reMajorMinor :: "atom list" where
  "reMajorMinor = [Plus Digit, One (Lit CHR ''.''), Plus Digit, Ahead (Lit CHR ''.'')]"

text \<open>\<^verbatim>\<open>new RegExp('v[0-9]+.[0-9]+.[0-9]+')\<close>\<close>

definition regexVersion :: "atom list" where
  "regexVersion =
     [One (Lit CHR ''v''), Plus Digit, One AnyChar, Plus Digit, One AnyChar, Plus Digit]"

text \<open>
  Unary \<open>+\<close> on a non-empty run of decimal digits. JavaScript rounds the value
  to a double; the code only compares it with 3 and 4, and no other integer
  rounds to either, so the exact value decides the same.
\<close>

definition toNumber :: "string \<Rightarrow> nat" where
  "toNumber ds = foldl (\<lambda>n c. 10 * n + ((of_char c :: nat) - 48)) 0 ds"

text \<open>\<open>s.substr(start, length)\<close>; a negative length gives the empty string.\<close>

definition substr :: "string \<Rightarrow> nat \<Rightarrow> int \<Rightarrow> string" where
  "substr s start len = take (nat len) (drop start s)"

text \<open>\<open>s.lastIndexOf(c)\<close> for a one-character needle; \<open>- 1\<close> when absent.\<close>

fun lastIndexOf :: "string \<Rightarrow> char \<Rightarrow> int" where
  "lastIndexOf [] d = - 1"
| "lastIndexOf (c # s) d =
     (let i = lastIndexOf s d in
      if 0 \<le> i then i + 1 else if c = d then 0 else - 1)"

text \<open>\<open>s.split(c)\<close>: the pieces between the separators, never an empty list.\<close>

fun split :: "char \<Rightarrow> string \<Rightarrow> string list" where
  "split d [] = [[]]"
| "split d (c # s) =
     (case split d s of
        [] \<Rightarrow> [[c]]
      | p # ps \<Rightarrow> if c = d then [] # p # ps else (c # p) # ps)"

text \<open>\<open>s.replace(pat, rep)\<close> with a string pattern: the first occurrence only.\<close>

fun replaceFirst :: "string \<Rightarrow> string \<Rightarrow> string \<Rightarrow> string" where
  "replaceFirst pat rep [] = (if pat = [] then rep else [])"
| "replaceFirst pat rep (c # s) =
     (if take (length pat) (c # s) = pat then rep @ drop (length pat) (c # s)
      else c # replaceFirst pat rep s)"

text \<open>
  \<open>s.toLowerCase()\<close> on characters read as code points 0 to 255: the letters
  A to Z and the upper-case letters of Latin-1 move up by 32.
\<close>

definition isUpper :: "char \<Rightarrow> bool" where
  "isUpper c =
     (let n = (of_char c :: nat) in
      (65 \<le> n \<and> n \<le> 90) \<or> (192 \<le> n \<and> n \<le> 222 \<and> n \<noteq> 215))"

definition lowerChar :: "char \<Rightarrow> char" where
  "lowerChar c = (if isUpper c then char_of ((of_char c :: nat) + 32) else c)"

definition toLowerCase :: "string \<Rightarrow> string" where
  "toLowerCase s = map lowerChar s"


section \<open>The resolver\<close>

text \<open>
  Modelled from the spec: \<open>src/constants.ts\<close> is not among the sources. Its
  exported names are the fields of this record, and every function takes the
  record as a parameter.
\<close>

record constants =
  LINUX :: string
  MACOSX :: string
  WIN :: string
  OC_TAR_GZ :: string
  OC_ZIP :: string
  LATEST :: string

text \<open>
  Modelled from the spec: the values that the spec and the tests give for the
  constants (\<open>linux/oc.tar.gz\<close>, \<open>windows/oc.zip\<close>, \<open>latest\<close>); the spec does not
  give the segment for macOS.
\<close>

definition specConstants :: constants where
  "specConstants =
     \<lparr>LINUX = ''linux'', MACOSX = ''macosx'', WIN = ''windows'',
      OC_TAR_GZ = ''oc.tar.gz'', OC_ZIP = ''oc.zip'', LATEST = ''latest''\<rparr>"

text \<open>
  \<open>getOcUtils\<close> parses \<open>oc-utils.json\<close>, which is not among the sources: the
  parsed object is a parameter, a map from keys to strings.
\<close>

type_synonym ocUtils = "string \<rightharpoonup> string"

definition getOcBundleByOS :: "constants \<Rightarrow> string \<Rightarrow> string option" where
  "getOcBundleByOS k osType =
     (if osType = ''Linux'' then Some ([] @ LINUX k @ ''/'' @ OC_TAR_GZ k)
      else if osType = ''Darwin'' then Some ([] @ MACOSX k @ ''/'' @ OC_TAR_GZ k)
      else if osType = ''Windows_NT'' then Some ([] @ WIN k @ ''/'' @ OC_ZIP k)
      else None)"

definition latestStable :: "constants \<Rightarrow> ocUtils \<Rightarrow> string \<Rightarrow> string option" where
  "latestStable k u osType =
     (let bundle = getOcBundleByOS k osType in
      if falsy bundle then None
      else Some (render (u ''openshiftV4BaseUrl'') @ ''/'' @ LATEST k @ ''/'' @ render bundle))"

text \<open>Lines 125 to 127: a leading \<open>v\<close> is dropped.\<close>

definition stripV :: "string \<Rightarrow> string" where
  "stripV version = (if take 1 version = ''v'' then substr version 1 (int (length version)) else version)"

definition ocBundleURL ::
  "constants \<Rightarrow> ocUtils \<Rightarrow> string option \<Rightarrow> string \<Rightarrow> bool \<Rightarrow> string option" where
  "ocBundleURL k u version0 osType latest =
     (if falsy version0 then None
      else
        let version1 = stripV (render version0) in
        (case exec reMajor version1 of
           None \<Rightarrow> None
         | Some vMajorRegEx \<Rightarrow>
             (let vMajor = toNumber vMajorRegEx;
                  versionOpt =
                    (if latest
                     then (case exec reMajorMinor version1 of
                             None \<Rightarrow> None
                           | Some baseVersion \<Rightarrow>
                               (if falsy (u (''oc'' @ baseVersion)) then None
                                else u (''oc'' @ baseVersion)))
                     else Some version1)
              in (case versionOpt of
                    None \<Rightarrow> None
                  | Some version \<Rightarrow>
                      (let urlOpt =
                             (if vMajor = 3
                              then Some (render (u ''openshiftV3BaseUrl'') @ ''/'' @ version @ ''/'')
                              else if vMajor = 4
                              then Some (render (u ''openshiftV4BaseUrl'') @ ''/'' @ version @ ''/'')
                              else None)
                       in (case urlOpt of
                             None \<Rightarrow> None
                           | Some url \<Rightarrow>
                               (let bundle = getOcBundleByOS k osType in
                                if falsy bundle then None
                                else Some (url @ render bundle))))))))"

text \<open>
  The reading of the major version in words: scan the text from the left, take
  each maximal run of digits in turn, and return the first run whose next
  character is a dot.
\<close>

function firstDigitRunBeforeDot :: "string \<Rightarrow> string option" where
  "firstDigitRunBeforeDot [] = None"
| "firstDigitRunBeforeDot (c # s) =
     (if isDigit c
      then (if take 1 (dropWhile isDigit s) = ''.'' then Some (c # takeWhile isDigit s)
            else firstDigitRunBeforeDot (dropWhile isDigit s))
      else firstDigitRunBeforeDot s)"
  by pat_completeness auto
termination
  by (relation "measure length") (auto simp: less_Suc_eq_le length_dropWhile_le)


section \<open>Paths\<close>

text \<open>
  \<open>path.normalize\<close>, \<open>path.join\<close> and \<open>path.extname\<close> of Node, in their POSIX
  variant: the separator is the slash. \<open>normalizeSegments\<close> walks the pieces
  between slashes and keeps a stack of the pieces kept so far, newest first:
  empty pieces and \<open>.\<close> are dropped, \<open>..\<close> removes the piece before it, and
  is kept itself only in a relative path with nothing left to remove.
\<close>

fun normalizeSegments :: "bool \<Rightarrow> string list \<Rightarrow> string list \<Rightarrow> string list" where
  "normalizeSegments allowAboveRoot [] res = rev res"
| "normalizeSegments allowAboveRoot (seg # segs) res =
     (if seg = [] \<or> seg = ''.'' then normalizeSegments allowAboveRoot segs res
      else if seg = ''..''
      then (if res = [] \<or> take 1 res = [''..'']
            then normalizeSegments allowAboveRoot segs
                   (if allowAboveRoot then ''..'' # res else res)
            else normalizeSegments allowAboveRoot segs (drop 1 res))
      else normalizeSegments allowAboveRoot segs (seg # res))"

fun joinWith :: "string \<Rightarrow> string list \<Rightarrow> string" where
  "joinWith sep [] = []"
| "joinWith sep [p] = p"
| "joinWith sep (p # q # ps) = p @ sep @ joinWith sep (q # ps)"

definition pathNormalize :: "string \<Rightarrow> string" where
  "pathNormalize p =
     (if p = [] then ''.''
      else
        let isAbsolute = (take 1 p = ''/'');
            trailingSeparator = (last p = CHR ''/'');
            body0 = joinWith ''/'' (normalizeSegments (\<not> isAbsolute) (split CHR ''/'' p) []);
            body1 = (if body0 = [] \<and> \<not> isAbsolute then ''.'' else body0);
            body2 = (if body1 \<noteq> [] \<and> trailingSeparator then body1 @ ''/'' else body1)
        in if isAbsolute then ''/'' @ body2 else body2)"

definition pathJoin :: "string \<Rightarrow> string \<Rightarrow> string" where
  "pathJoin a b =
     (let args = filter (\<lambda>x. x \<noteq> []) [a, b] in
      if args = [] then ''.'' else pathNormalize (joinWith ''/'' args))"

definition extname :: "string \<Rightarrow> string" where
  "extname p =
     (let trimmed = rev (dropWhile (\<lambda>c. c = CHR ''/'') (rev p));
          base = last (split CHR ''/'' trimmed);
          startDot = lastIndexOf base CHR ''.''
      in if startDot \<le> 0 \<or> base = ''..'' then [] else drop (nat startDot) base)"


section \<open>The world outside the task\<close>

text \<open>
  How a call ends when it does not return: \<open>Rejected m\<close> is a promise rejected
  with the string \<open>m\<close> (\<open>Promise.reject(m)\<close>, or \<open>throw m\<close> in an async
  function), \<open>Thrown m\<close> is \<open>throw new Error(m)\<close>, and \<open>External t\<close> is a
  failure raised inside the tool or library \<open>t\<close>.
\<close>

datatype failure = Rejected string | Thrown string | External string

text \<open>
  What the task changes: the paths that exist (kept normalized), the network
  transfers made by \<open>curl\<close> (output path and URL, oldest first), the calls of
  \<open>chmodSync\<close>, and the task variables.
\<close>

record world =
  files :: "string set"
  transfers :: "(string \<times> string) list"
  chmods :: "(string \<times> string) list"
  variables :: "string \<rightharpoonup> string"

text \<open>The fields of \<open>IExecSyncResult\<close> that the code reads.\<close>

record execResult =
  stdout :: string
  stderr :: string

text \<open>
  What the task reads and the collaborators it calls, none of which is in the
  sources: the environment variable \<open>SYSTEM_DEFAULTWORKINGDIRECTORY\<close>, the
  parsed \<open>oc-utils.json\<close>, the result of \<open>tl.which('oc', true)\<close> (\<open>None\<close> when
  it throws), \<open>execOcSync\<close> of \<open>oc-exec.ts\<close>, \<open>validUrl.isWebUri\<close>, the
  \<open>ok\<close> flag of the response to a \<open>HEAD\<close> request (\<open>None\<close> when \<open>fetch\<close>
  rejects), whether \<open>mkdir -p\<close> and \<open>curl\<close> exit with status 0, and the
  entries of the archive stored at a path, each with the length of its data
  (\<open>None\<close> when the archive cannot be read).
\<close>

record env =
  workingDirectory :: "string option"
  ocUtilsJson :: ocUtils
  whichOc :: "string option"
  execOcSync :: "string \<Rightarrow> string \<Rightarrow> execResult option"
  isWebUri :: "string \<Rightarrow> bool"
  fetchOk :: "string option \<Rightarrow> bool option"
  mkdirOk :: "string \<Rightarrow> bool"
  curlOk :: "string \<Rightarrow> bool"
  archiveEntries :: "string \<Rightarrow> (string \<times> nat) list option"

text \<open>\<open>tl.exist\<close> and \<open>fs.existsSync\<close>.\<close>

definition pathExists :: "world \<Rightarrow> string \<Rightarrow> bool" where
  "pathExists w p = (p \<noteq> [] \<and> pathNormalize p \<in> files w)"

text \<open>\<open>mkdir -p dir\<close>, awaited: a non-zero exit status rejects.\<close>

definition mkdir :: "env \<Rightarrow> string \<Rightarrow> world \<Rightarrow> (failure + unit) \<times> world" where
  "mkdir e dir w =
     (if mkdirOk e dir then (Inr (), w\<lparr>files := insert (pathNormalize dir) (files w)\<rparr>)
      else (Inl (External ''mkdir''), w))"

text \<open>
  \<open>curl -s -L -o archivePath url\<close>, awaited: the transfer is attempted, and
  with exit status 0 the output file exists afterwards.
\<close>

definition curl :: "env \<Rightarrow> string \<Rightarrow> string \<Rightarrow> world \<Rightarrow> (failure + unit) \<times> world" where
  "curl e archivePath url w =
     (let w1 = w\<lparr>transfers := transfers w @ [(archivePath, url)]\<rparr> in
      if curlOk e url
      then (Inr (), w1\<lparr>files := insert (pathNormalize archivePath) (files w1)\<rparr>)
      else (Inl (External ''curl''), w1))"

text \<open>
  Writing an entry below a directory creates the entry and every directory
  above it: \<open>entryPaths\<close> of the entry name \<open>a/b/c\<close> are \<open>a\<close>, \<open>a/b\<close> and
  \<open>a/b/c\<close>.
\<close>

fun segmentPrefixes :: "string list \<Rightarrow> string list list" where
  "segmentPrefixes [] = []"
| "segmentPrefixes (seg # segs) = [seg] # map (Cons seg) (segmentPrefixes segs)"

definition entryPaths :: "string \<Rightarrow> string list" where
  "entryPaths name = map (joinWith ''/'') (segmentPrefixes (split CHR ''/'' name))"

definition written :: "string \<Rightarrow> (string \<times> nat) list \<Rightarrow> string set" where
  "written dir entries =
     set (concat (map (\<lambda>entry. map (pathJoin dir) (entryPaths (fst entry))) entries))"

text \<open>\<open>new Zip(archivePath).extractAllTo(dir)\<close>: every entry is written below \<open>dir\<close>.\<close>

definition extractAllTo :: "env \<Rightarrow> string \<Rightarrow> string \<Rightarrow> world \<Rightarrow> (failure + unit) \<times> world" where
  "extractAllTo e archivePath dir w =
     (case archiveEntries e archivePath of
        None \<Rightarrow> (Inl (External ''adm-zip''), w)
      | Some entries \<Rightarrow> (Inr (), w\<lparr>files := files w \<union> written dir entries\<rparr>))"

text \<open>
  \<open>decompress(archivePath, dir, {filter, plugins: [decompressTargz()]})\<close>:
  the entries with data of length 0 are filtered out, the others written.
\<close>

definition decompress :: "env \<Rightarrow> string \<Rightarrow> string \<Rightarrow> world \<Rightarrow> (failure + unit) \<times> world" where
  "decompress e archivePath dir w =
     (case archiveEntries e archivePath of
        None \<Rightarrow> (Inl (External ''decompress''), w)
      | Some entries \<Rightarrow>
          (Inr (), w\<lparr>files := files w \<union>
             written dir (filter (\<lambda>entry. 0 < snd entry) entries)\<rparr>))"


section \<open>Download and extraction\<close>

text \<open>Lines 227 to 229: the archive is named after the last piece of the URL.\<close>

definition archiveOf :: "string \<Rightarrow> string" where
  "archiveOf url = last (split CHR ''/'' url)"

text \<open>Lines 242 to 248: the archive type that the \<open>switch\<close> dispatches on.\<close>

definition archiveTypeOf :: "string \<Rightarrow> string" where
  "archiveTypeOf archive =
     (let archiveType = extname archive;
          expandDir = replaceFirst archiveType [] archive
      in if extname expandDir = ''.tar'' then ''.tar.gz'' else archiveType)"

definition downloadAndExtract ::
  "env \<Rightarrow> string \<Rightarrow> string \<Rightarrow> string \<Rightarrow> world \<Rightarrow> (failure + string option) \<times> world" where
  "downloadAndExtract e url downloadDir0 osType w =
     (if url = [] then (Inr None, w)
      else
        let downloadDir = pathNormalize downloadDir0 in
        if \<not> pathExists w downloadDir
        then (Inl (Rejected (downloadDir @ '' does not exist.'')), w)
        else
          let archive = archiveOf url;
              archivePath = pathJoin downloadDir archive;
              fetched = (if \<not> pathExists w archivePath then curl e archivePath url w
                         else (Inr (), w));
              w1 = snd fetched
          in (case fst fetched of
                Inl f \<Rightarrow> (Inl f, w1)
              | Inr _ \<Rightarrow>
                  (let archiveType = archiveTypeOf archive;
                       expanded =
                         (if archiveType = ''.zip'' then extractAllTo e archivePath downloadDir w1
                          else if archiveType = ''.tgz'' \<or> archiveType = ''.tar.gz''
                          then decompress e archivePath downloadDir w1
                          else (Inl (Rejected (''unknown archive format '' @ archivePath)), w1));
                       w2 = snd expanded
                   in (case fst expanded of
                         Inl f \<Rightarrow> (Inl f, w2)
                       | Inr _ \<Rightarrow>
                           (let ocBinary = pathJoin downloadDir
                                  (if osType = ''Windows_NT'' then ''oc.exe'' else ''oc'')
                            in if \<not> pathExists w2 ocBinary then (Inr None, w2)
                               else (Inr (Some ocBinary),
                                     w2\<lparr>chmods := chmods w2 @ [(ocBinary, ''0755'')]\<rparr>))))))"


section \<open>Reuse of a local \<open>oc\<close>\<close>

definition getOcVersion :: "env \<Rightarrow> string \<Rightarrow> string option" where
  "getOcVersion e ocPath =
     (let result0 = execOcSync e ocPath ''version --short=true --client=true'';
          result = (case result0 of
                      None \<Rightarrow> execOcSync e ocPath ''version''
                    | Some r \<Rightarrow> if stderr r \<noteq> [] then execOcSync e ocPath ''version''
                               else Some r)
      in (case result of
            None \<Rightarrow> None
          | Some r \<Rightarrow> if stdout r = [] then None else exec regexVersion (stdout r)))"

definition getLocalOcPath :: "env \<Rightarrow> string option \<Rightarrow> string option" where
  "getLocalOcPath e version =
     (let ocPath = whichOc e in
      if \<not> falsy version \<and> \<not> falsy ocPath
      then (let localOcVersion = getOcVersion e (render ocPath) in
            if falsy localOcVersion \<or>
               toLowerCase (render localOcVersion) \<noteq> toLowerCase (render version)
            then None else ocPath)
      else ocPath)"


section \<open>Registration in \<open>PATH\<close>\<close>

definition getVariable :: "world \<Rightarrow> string \<Rightarrow> string option" where
  "getVariable w name = variables w name"

definition setVariable :: "string \<Rightarrow> string \<Rightarrow> world \<Rightarrow> world" where
  "setVariable name val w = w\<lparr>variables := (variables w)(name \<mapsto> val)\<rparr>"

definition addOcToPath :: "string option \<Rightarrow> string \<Rightarrow> world \<Rightarrow> (failure + unit) \<times> world" where
  "addOcToPath ocPath osType w =
     (if ocPath = None \<or> ocPath = Some []
      then (Inl (Thrown ''path cannot be null or empty''), w)
      else if osType = ''Windows_NT''
      then (let dir = substr (render ocPath) 0 (lastIndexOf (render ocPath) CHR 0x5C)
            in (Inr (), setVariable ''PATH'' (dir @ '';'' @ render (getVariable w ''PATH'')) w))
      else (let dir = substr (render ocPath) 0 (lastIndexOf (render ocPath) CHR ''/'')
            in (Inr (), setVariable ''PATH'' (dir @ '':'' @ render (getVariable w ''PATH'')) w)))"


section \<open>The install orchestration\<close>

text \<open>Lines 53 to 65: the URL to download, or the failure of the probe.\<close>

definition installUrl ::
  "env \<Rightarrow> constants \<Rightarrow> string option \<Rightarrow> string \<Rightarrow> failure + string option" where
  "installUrl e k downloadVersion osType =
     (if isWebUri e (render downloadVersion) then Inr downloadVersion
      else
        let url = ocBundleURL k (ocUtilsJson e) downloadVersion osType False in
        (case fetchOk e url of
           None \<Rightarrow> Inl (External ''fetch'')
         | Some ok \<Rightarrow>
             if \<not> ok then Inr (ocBundleURL k (ocUtilsJson e) downloadVersion osType True)
             else Inr url))"

text \<open>Lines 44 to 51: the download directory, created when it is missing.\<close>

definition downloadDirOf :: "env \<Rightarrow> string" where
  "downloadDirOf e = render (workingDirectory e) @ ''/.download''"

definition ensureDownloadDir :: "env \<Rightarrow> world \<Rightarrow> (failure + unit) \<times> world" where
  "ensureDownloadDir e w =
     (if \<not> pathExists w (downloadDirOf e) then mkdir e (downloadDirOf e) w else (Inr (), w))"

definition installOc ::
  "env \<Rightarrow> constants \<Rightarrow> string option \<Rightarrow> string \<Rightarrow> bool \<Rightarrow> world \<Rightarrow> (failure + string) \<times> world" where
  "installOc e k downloadVersion0 osType useLocalOc w =
     (let localOcPath = (if useLocalOc then getLocalOcPath e downloadVersion0 else None) in
      if \<not> falsy localOcPath then (Inr (render localOcPath), w)
      else
        let downloadVersion =
              (if falsy downloadVersion0 then latestStable k (ocUtilsJson e) osType
               else downloadVersion0)
        in if falsy downloadVersion0 \<and> downloadVersion = None
           then (Inl (Rejected ''Unable to determine latest oc download URL''), w)
           else
             let made = ensureDownloadDir e w;
                 w1 = snd made
             in (case fst made of
                   Inl f \<Rightarrow> (Inl f, w1)
                 | Inr _ \<Rightarrow>
                     (case installUrl e k downloadVersion osType of
                        Inl f \<Rightarrow> (Inl f, w1)
                      | Inr None \<Rightarrow> (Inl (Rejected ''Unable to determine oc download URL.''), w1)
                      | Inr (Some url) \<Rightarrow>
                          (let extracted = downloadAndExtract e url (downloadDirOf e) osType w1;
                               w2 = snd extracted
                           in (case fst extracted of
                                 Inl f \<Rightarrow> (Inl f, w2)
                               | Inr None \<Rightarrow>
                                   (Inl (Rejected ''Unable to download or extract oc binary.''), w2)
                               | Inr (Some ocBinary) \<Rightarrow> (Inr ocBinary, w2))))))"

section \<open>Sample data for the concrete checks\<close>

text \<open>
  A table of the shape of \<open>oc-utils.json\<close>: the two mirror roots, and a latest
  patch for the lines 3.11 and 4.1. The values are samples; the theorems that
  quantify over the table do not depend on them.
\<close>

definition sampleOcUtils :: ocUtils where
  "sampleOcUtils =
     [''openshiftV3BaseUrl'' \<mapsto> ''https://mirror/v3'',
      ''openshiftV4BaseUrl'' \<mapsto> ''https://mirror/v4'',
      ''oc3.11'' \<mapsto> ''3.11.153'',
      ''oc4.1'' \<mapsto> ''4.1.18'']"

text \<open>
  An agent whose working directory is \<open>/w\<close>, with an \<open>oc\<close> on the search
  path that reports version \<open>v4.1.0\<close>, where only URLs with scheme \<open>http\<close> or
  \<open>https\<close> are web URIs, every probe of a URL answers with a status that is
  not ok (and \<open>fetch\<close> rejects when the URL is null), the tools succeed, and
  every archive holds \<open>oc.exe\<close> and an empty entry.
\<close>

definition sampleEnv :: env where
  "sampleEnv =
     \<lparr>workingDirectory = Some ''/w'',
      ocUtilsJson = sampleOcUtils,
      whichOc = Some ''/usr/bin/oc'',
      execOcSync = (\<lambda>ocPath args. Some \<lparr>stdout = ''Client Version: v4.1.0'', stderr = []\<rparr>),
      isWebUri = (\<lambda>s. take 7 s = ''http://'' \<or> take 8 s = ''https://''),
      fetchOk = (\<lambda>url. case url of None \<Rightarrow> None | Some x \<Rightarrow> Some False),
      mkdirOk = (\<lambda>dir. True),
      curlOk = (\<lambda>url. True),
      archiveEntries = (\<lambda>archivePath. Some [(''oc.exe'', 10), (''README'', 0)])\<rparr>"

text \<open>The same agent without network: every transfer fails.\<close>

definition offlineEnv :: env where
  "offlineEnv = sampleEnv\<lparr>curlOk := (\<lambda>url. False)\<rparr>"

text \<open>The same agent with an archive that holds the file \<open>oc/x\<close> only.\<close>

definition nestedEnv :: env where
  "nestedEnv = sampleEnv\<lparr>archiveEntries := (\<lambda>archivePath. Some [(''oc/x'', 10)])\<rparr>"

definition emptyWorld :: world where
  "emptyWorld = \<lparr>files = {}, transfers = [], chmods = [], variables = Map.empty\<rparr>"


section \<open>Facts about the patterns\<close>

lemma dot_not_digit: "\<not> isDigit CHR ''.''"
  by (simp add: isDigit_def)

lemma matchHere_reMajor_digit:
  "isDigit c \<Longrightarrow>
   matchHere reMajor (c # s) =
     (if take 1 (dropWhile isDigit s) = ''.'' then Some (c # takeWhile isDigit s) else None)"
proof (induction s arbitrary: c)
  case Nil
  then show ?case by (simp add: reMajor_def)
next
  case (Cons d s)
  show ?case
  proof (cases "isDigit d")
    case True
    have "d \<noteq> CHR ''.''" using True dot_not_digit by auto
    with Cons.IH [OF True] Cons.prems True show ?thesis
      by (simp add: reMajor_def)
  next
    case False
    with Cons.prems show ?thesis by (simp add: reMajor_def dot_not_digit)
  qed
qed

lemma matchHere_reMajor_other: "\<not> isDigit c \<Longrightarrow> matchHere reMajor (c # s) = None"
  by (simp add: reMajor_def)

lemma exec_reMajor_skip_run:
  "take 1 (dropWhile isDigit s) \<noteq> ''.'' \<Longrightarrow>
   exec reMajor s = exec reMajor (dropWhile isDigit s)"
proof (induction s)
  case Nil
  show ?case by simp
next
  case (Cons c s)
  show ?case
  proof (cases "isDigit c")
    case True
    with Cons.prems have "matchHere reMajor (c # s) = None"
      by (simp add: matchHere_reMajor_digit)
    with Cons True show ?thesis by simp
  next
    case False
    then show ?thesis by simp
  qed
qed

lemma exec_reMajor_scan: "exec reMajor s = firstDigitRunBeforeDot s"
proof (induction s rule: firstDigitRunBeforeDot.induct)
  case 1
  show ?case by (simp add: reMajor_def)
next
  case (2 c s)
  show ?case
  proof (cases "isDigit c")
    case True
    show ?thesis
    proof (cases "take 1 (dropWhile isDigit s) = ''.''")
      case dot: True
      with True show ?thesis by (simp add: matchHere_reMajor_digit)
    next
      case nodot: False
      have "exec reMajor (c # s) = exec reMajor (dropWhile isDigit (c # s))"
        by (rule exec_reMajor_skip_run) (use True nodot in simp)
      with "2.IH"(1) [OF True nodot] True nodot show ?thesis by simp
    qed
  next
    case False
    with "2.IH"(2) [OF False] show ?thesis
      by (simp add: matchHere_reMajor_other)
  qed
qed


section \<open>Facts about strings, paths and the world\<close>

lemmas resolver_defs = ocBundleURL_def stripV_def substr_def falsy_def render_def Let_def
  reMajor_def reMajorMinor_def isDigit_def toNumber_def

lemmas install_defs = installOc_def installUrl_def downloadDirOf_def ensureDownloadDir_def
  latestStable_def getOcBundleByOS_def mkdir_def

lemmas path_defs = pathNormalize_def pathJoin_def extname_def archiveOf_def archiveTypeOf_def

lemmas download_defs = downloadAndExtract_def curl_def extractAllTo_def decompress_def
  pathExists_def written_def entryPaths_def

lemma bundle_not_empty: "getOcBundleByOS k osType = Some b \<Longrightarrow> b \<noteq> []"
  by (auto simp: getOcBundleByOS_def split: if_splits)

lemma ocBundleURL_plain:
  assumes "version \<noteq> []" and "exec reMajor (stripV version) = Some m"
  shows "ocBundleURL k u (Some version) osType False =
           (if toNumber m = 3
            then map_option (\<lambda>b. render (u ''openshiftV3BaseUrl'') @ ''/'' @ stripV version @ ''/'' @ b)
                   (getOcBundleByOS k osType)
            else if toNumber m = 4
            then map_option (\<lambda>b. render (u ''openshiftV4BaseUrl'') @ ''/'' @ stripV version @ ''/'' @ b)
                   (getOcBundleByOS k osType)
            else None)"
  using assms bundle_not_empty [of k osType]
  by (cases "getOcBundleByOS k osType") (simp_all add: ocBundleURL_def falsy_def render_def)

lemma ocBundleURL_other_major:
  assumes "exec reMajor (stripV version) = Some m" and "toNumber m \<noteq> 3" and "toNumber m \<noteq> 4"
  shows "ocBundleURL k u (Some version) osType latest = None"
  using assms by (simp add: ocBundleURL_def render_def Let_def split: option.splits)

lemma exec_reMajor_5: "exec reMajor (stripV ''5.0.0'') = Some ''5''"
  by (simp add: stripV_def reMajor_def isDigit_def)

lemma lastIndexOf_absent: "d \<notin> set s \<Longrightarrow> lastIndexOf s d = - 1"
  by (induction s) (auto simp: Let_def)

lemma lastIndexOf_last: "d \<notin> set base \<Longrightarrow> lastIndexOf (dir @ d # base) d = int (length dir)"
  by (induction dir) (auto simp: Let_def lastIndexOf_absent)

lemma substr_dir:
  "d \<notin> set base \<Longrightarrow> substr (dir @ d # base) 0 (lastIndexOf (dir @ d # base) d) = dir"
  by (simp add: substr_def lastIndexOf_last)

lemma substr_no_dir: "d \<notin> set s \<Longrightarrow> substr s 0 (lastIndexOf s d) = []"
  by (simp add: substr_def lastIndexOf_absent)

lemma matchHere_regexVersion_v:
  "matchHere regexVersion s = Some m \<Longrightarrow> \<exists>t. m = CHR ''v'' # t"
  by (cases s) (auto simp: regexVersion_def split: if_splits)

lemma exec_regexVersion_v: "exec regexVersion s = Some m \<Longrightarrow> \<exists>t. m = CHR ''v'' # t"
proof (induction s)
  case Nil
  then show ?case by (simp add: matchHere_regexVersion_v)
next
  case (Cons c s)
  then show ?case
    by (cases "matchHere regexVersion (c # s)") (auto dest: matchHere_regexVersion_v)
qed

lemma getOcVersion_v: "getOcVersion e p = Some lv \<Longrightarrow> \<exists>t. lv = CHR ''v'' # t"
  by (auto simp: getOcVersion_def Let_def split: option.splits if_splits
      dest: exec_regexVersion_v)

lemma lowerChar_v: "lowerChar c = CHR ''v'' \<Longrightarrow> c = CHR ''v'' \<or> c = CHR ''V''"
proof (cases "isUpper c")
  case True
  assume "lowerChar c = CHR ''v''"
  with True have "char_of ((of_char c :: nat) + 32) = CHR ''v''"
    by (simp add: lowerChar_def)
  then have "(of_char (char_of ((of_char c :: nat) + 32)) :: nat) = of_char CHR ''v''" by simp
  then have "((of_char c :: nat) + 32) mod 256 = 118" by (simp add: of_char_of)
  with True have "(of_char c :: nat) = 86" by (auto simp: isUpper_def Let_def)
  then have "char_of (of_char c :: nat) = (char_of (86::nat) :: char)" by simp
  then have "c = char_of (86::nat)" by simp
  moreover have "char_of (86::nat) = CHR ''V''" by (simp add: char_of_def bit_Suc_0_iff)
  ultimately show ?thesis by simp
next
  case False
  assume "lowerChar c = CHR ''v''"
  with False show ?thesis by (simp add: lowerChar_def)
qed

lemma lowerChar_v_fixed: "lowerChar CHR ''v'' = CHR ''v''"
  by (simp add: lowerChar_def isUpper_def)

lemma toLowerCase_v:
  "toLowerCase v = toLowerCase (CHR ''v'' # t) \<Longrightarrow> take 1 v = ''v'' \<or> take 1 v = ''V''"
  by (cases v) (auto simp: toLowerCase_def lowerChar_v_fixed dest: lowerChar_v)

lemma pathNormalize_not_empty: "pathNormalize p \<noteq> []"
  by (cases "take 1 p = ''/''") (simp_all add: pathNormalize_def Let_def)

lemma pathJoin_not_empty: "pathJoin a b \<noteq> []"
  by (simp add: pathJoin_def Let_def pathNormalize_not_empty)

lemma pathExists_mono: "pathExists w p \<Longrightarrow> files w \<subseteq> files w' \<Longrightarrow> pathExists w' p"
  by (auto simp: pathExists_def)

lemma curl_effect:
  "transfers (snd (curl e ap url w)) = transfers w @ [(ap, url)] \<and>
   files w \<subseteq> files (snd (curl e ap url w)) \<and>
   (fst (curl e ap url w) = Inr () \<longrightarrow> pathNormalize ap \<in> files (snd (curl e ap url w))) \<and>
   (fst (curl e ap url w) \<noteq> Inr () \<longrightarrow> fst (curl e ap url w) = Inl (External ''curl''))"
  by (auto simp: curl_def Let_def)

lemma extractAllTo_effect:
  "transfers (snd (extractAllTo e ap dir w)) = transfers w \<and>
   files w \<subseteq> files (snd (extractAllTo e ap dir w))"
  by (auto simp: extractAllTo_def split: option.splits)

lemma decompress_effect:
  "transfers (snd (decompress e ap dir w)) = transfers w \<and>
   files w \<subseteq> files (snd (decompress e ap dir w))"
  by (auto simp: decompress_def split: option.splits)

text \<open>Without a URL or without the directory, the call changes nothing.\<close>

lemma downloadAndExtract_skip:
  "url = [] \<or> \<not> pathExists w (pathNormalize dir) \<Longrightarrow>
   snd (downloadAndExtract e url dir osType w) = w"
  by (auto simp: downloadAndExtract_def Let_def)

text \<open>
  Otherwise the transfers are those of the download step, and no file that
  exists after the download step is lost.
\<close>

lemma downloadAndExtract_state:
  assumes "url \<noteq> []" "pathExists w (pathNormalize dir)"
    and "ap = pathJoin (pathNormalize dir) (archiveOf url)"
    and "w1 = (if \<not> pathExists w ap then snd (curl e ap url w) else w)"
  shows "transfers (snd (downloadAndExtract e url dir osType w)) = transfers w1 \<and>
         files w1 \<subseteq> files (snd (downloadAndExtract e url dir osType w))"
proof -
  have x: "transfers (snd (extractAllTo e ap (pathNormalize dir) w1)) = transfers w1"
          "files w1 \<subseteq> files (snd (extractAllTo e ap (pathNormalize dir) w1))"
    using extractAllTo_effect by auto
  have d: "transfers (snd (decompress e ap (pathNormalize dir) w1)) = transfers w1"
          "files w1 \<subseteq> files (snd (decompress e ap (pathNormalize dir) w1))"
    using decompress_effect by auto
  show ?thesis
  proof (cases "pathExists w ap")
    case True
    with assms x d show ?thesis
      by (simp add: downloadAndExtract_def Let_def split: sum.splits)
  next
    case False
    with assms x d show ?thesis
      by (simp add: downloadAndExtract_def Let_def split: sum.splits)
  qed
qed

lemma downloadAndExtract_curl_failed:
  assumes "url \<noteq> []" "pathExists w (pathNormalize dir)"
    and "ap = pathJoin (pathNormalize dir) (archiveOf url)"
    and "\<not> pathExists w ap" "fst (curl e ap url w) \<noteq> Inr ()"
  shows "fst (downloadAndExtract e url dir osType w) = Inl (External ''curl'')"
  using assms curl_effect [of e ap url w]
  by (auto simp: downloadAndExtract_def Let_def split: sum.splits)

lemma downloadAndExtract_no_transfer:
  assumes "pathExists w (pathJoin (pathNormalize dir) (archiveOf url))"
  shows "transfers (snd (downloadAndExtract e url dir osType w)) = transfers w"
proof (cases "url = [] \<or> \<not> pathExists w (pathNormalize dir)")
  case True
  then show ?thesis by (simp add: downloadAndExtract_skip)
next
  case False
  with assms downloadAndExtract_state [of url w dir _ w e osType] show ?thesis by simp
qed

lemma downloadAndExtract_keeps_archive:
  assumes "url \<noteq> []" "pathExists w (pathNormalize dir)"
    and "ap = pathJoin (pathNormalize dir) (archiveOf url)"
    and "fst (downloadAndExtract e url dir osType w) \<noteq> Inl (External ''curl'')"
    and "w1 = snd (downloadAndExtract e url dir osType w)"
  shows "pathExists w1 ap \<and> pathExists w1 (pathNormalize dir)"
proof -
  define w' where "w' = (if \<not> pathExists w ap then snd (curl e ap url w) else w)"
  have sub: "files w' \<subseteq> files w1"
    using downloadAndExtract_state [OF assms(1,2,3) w'_def, of osType] assms(5) by simp
  have "files w \<subseteq> files w'"
    using curl_effect [of e ap url w] by (simp add: w'_def)
  with sub assms(2) have dir: "pathExists w1 (pathNormalize dir)"
    by (blast intro: pathExists_mono)
  have "pathExists w' ap"
  proof (cases "pathExists w ap")
    case True
    then show ?thesis by (simp add: w'_def)
  next
    case False
    with assms downloadAndExtract_curl_failed [OF assms(1,2,3) False, of e osType]
    have "fst (curl e ap url w) = Inr ()" by auto
    with curl_effect [of e ap url w] False assms(3) show ?thesis
      by (simp add: w'_def pathExists_def pathJoin_not_empty)
  qed
  with sub have "pathExists w1 ap" by (blast intro: pathExists_mono)
  with dir show ?thesis by simp
qed

text \<open>The sample agent downloads and unpacks the Windows bundle of 4.1.18.\<close>

lemma sample_first_call:
  "downloadAndExtract sampleEnv ''https://mirror/v4/4.1.18/windows/oc.zip'' ''/w/.download''
      ''Windows_NT'' (emptyWorld\<lparr>files := {''/w/.download''}\<rparr>) =
   (Inr (Some ''/w/.download/oc.exe''),
    \<lparr>files = {''/w/.download'', ''/w/.download/oc.zip'', ''/w/.download/oc.exe'',
              ''/w/.download/README''},
     transfers = [(''/w/.download/oc.zip'', ''https://mirror/v4/4.1.18/windows/oc.zip'')],
     chmods = [(''/w/.download/oc.exe'', ''0755'')], variables = Map.empty\<rparr>)"
  by (simp add: download_defs path_defs sampleEnv_def emptyWorld_def Let_def insert_commute)


text \<open>
  An archive that holds only the file \<open>oc/x\<close> leaves the directory \<open>oc\<close>, which
  is found as the executable.
\<close>

lemma nested_entry_found:
  "fst (downloadAndExtract nestedEnv ''https://mirror/v4/4.1.18/linux/oc.tar.gz'' ''/w/.download''
      ''Linux'' (emptyWorld\<lparr>files := {''/w/.download''}\<rparr>)) = Inr (Some ''/w/.download/oc'')"
  by (simp add: download_defs path_defs nestedEnv_def sampleEnv_def emptyWorld_def Let_def)

text \<open>The sample agent creates its download directory, and finds no \<open>oc\<close> in the Linux bundle.\<close>

lemma sample_dir:
  "ensureDownloadDir sampleEnv emptyWorld =
     (Inr (), emptyWorld\<lparr>files := {''/w/.download''}\<rparr>)"
  by (simp add: ensureDownloadDir_def downloadDirOf_def mkdir_def pathExists_def sampleEnv_def
      emptyWorld_def render_def path_defs Let_def)

lemma sample_linux_call:
  "fst (downloadAndExtract sampleEnv ''https://mirror/v4/4.1.18/linux/oc.tar.gz'' ''/w/.download''
      ''Linux'' (emptyWorld\<lparr>files := {''/w/.download''}\<rparr>)) = Inr None"
  by (simp add: download_defs path_defs sampleEnv_def emptyWorld_def Let_def)


section \<open>Properties of the resolver\<close>

text \<open>
  C6. The bundle lookup \<open>getOcBundleByOS\<close> is a function of the OS identifier
  alone (it reads nothing else and cannot fail): for \<open>Linux\<close>, \<open>Darwin\<close> and
  \<open>Windows_NT\<close> it returns the platform segment and the archive file name
  joined by a slash, the same value at every call, and for every other string
  it returns null.
\<close>

theorem getOcBundleByOS_table:
  "getOcBundleByOS k ''Linux'' = Some (LINUX k @ ''/'' @ OC_TAR_GZ k) \<and>
   getOcBundleByOS k ''Darwin'' = Some (MACOSX k @ ''/'' @ OC_TAR_GZ k) \<and>
   getOcBundleByOS k ''Windows_NT'' = Some (WIN k @ ''/'' @ OC_ZIP k) \<and>
   (osType \<notin> {''Linux'', ''Darwin'', ''Windows_NT''} \<longrightarrow> getOcBundleByOS k osType = None)"
  by (simp add: getOcBundleByOS_def)

theorem getOcBundleByOS_table_witness:
  "getOcBundleByOS specConstants ''Linux'' = Some ''linux/oc.tar.gz'' \<and>
   getOcBundleByOS specConstants ''Windows_NT'' = Some ''windows/oc.zip'' \<and>
   ''fakeOS'' \<notin> {''Linux'', ''Darwin'', ''Windows_NT''} \<and>
   getOcBundleByOS specConstants ''fakeOS'' = None"
  using getOcBundleByOS_table [of specConstants "''fakeOS''"]
  by (simp add: specConstants_def)

text \<open>
  C5. When the table gives the v4 base URL, \<open>latestStable\<close> returns, for each
  supported OS identifier, the base URL, the \<open>LATEST\<close> segment and the bundle
  of that OS joined by slashes (with the constants of the spec, for \<open>Linux\<close>,
  the base followed by \<open>/latest/linux/oc.tar.gz\<close>); for every other OS
  identifier it returns null.
\<close>

theorem latestStable_url:
  assumes "u ''openshiftV4BaseUrl'' = Some V4Base"
  shows "latestStable k u ''Linux'' = Some (V4Base @ ''/'' @ LATEST k @ ''/'' @ LINUX k @ ''/'' @ OC_TAR_GZ k) \<and>
         latestStable k u ''Darwin'' = Some (V4Base @ ''/'' @ LATEST k @ ''/'' @ MACOSX k @ ''/'' @ OC_TAR_GZ k) \<and>
         latestStable k u ''Windows_NT'' = Some (V4Base @ ''/'' @ LATEST k @ ''/'' @ WIN k @ ''/'' @ OC_ZIP k) \<and>
         latestStable specConstants u ''Linux'' = Some (V4Base @ ''/latest/linux/oc.tar.gz'') \<and>
         (osType \<notin> {''Linux'', ''Darwin'', ''Windows_NT''} \<longrightarrow> latestStable k u osType = None)"
  using assms
  by (simp add: latestStable_def getOcBundleByOS_def falsy_def render_def specConstants_def)

theorem latestStable_url_witness:
  "latestStable specConstants [''openshiftV4BaseUrl'' \<mapsto> ''https://mirror/v4''] ''Linux''
     = Some ''https://mirror/v4/latest/linux/oc.tar.gz'' \<and>
   latestStable specConstants [''openshiftV4BaseUrl'' \<mapsto> ''https://mirror/v4''] ''fakeOS'' = None"
  using latestStable_url [of "[''openshiftV4BaseUrl'' \<mapsto> ''https://mirror/v4'']"
      "''https://mirror/v4''" specConstants "''fakeOS''"]
  by (simp add: specConstants_def)

lemma ocBundleURL_latest:
  assumes "version \<noteq> []" and "exec reMajor (stripV version) = Some m"
    and "exec reMajorMinor (stripV version) = Some baseVersion"
    and "u (''oc'' @ baseVersion) = Some patch" and "patch \<noteq> []"
  shows "ocBundleURL k u (Some version) osType True =
           (if toNumber m = 3
            then map_option (\<lambda>b. render (u ''openshiftV3BaseUrl'') @ ''/'' @ patch @ ''/'' @ b)
                   (getOcBundleByOS k osType)
            else if toNumber m = 4
            then map_option (\<lambda>b. render (u ''openshiftV4BaseUrl'') @ ''/'' @ patch @ ''/'' @ b)
                   (getOcBundleByOS k osType)
            else None)"
  using assms bundle_not_empty [of k osType]
  by (cases "getOcBundleByOS k osType") (simp_all add: ocBundleURL_def falsy_def render_def)

lemma ocBundleURL_shape:
  assumes "ocBundleURL k u (Some version) osType latest = Some url"
    and "exec reMajor (stripV version) = Some m"
  shows "\<exists>rest. (toNumber m = 3 \<and> url = (render (u ''openshiftV3BaseUrl'') @ ''/'') @ rest) \<or>
                (toNumber m = 4 \<and> url = (render (u ''openshiftV4BaseUrl'') @ ''/'') @ rest)"
proof -
  have r: "render (Some version) = version" by (simp add: render_def)
  show ?thesis
    using assms unfolding ocBundleURL_def Let_def r
    by (auto split: option.splits if_splits)
qed

text \<open>
  C7. The major version read from the version text selects the mirror, with
  or without the latest-patch flag: with major 3 the URL starts with the v3
  base of the table, with major 4 with the v4 base, followed by the version
  segment (the version text without its leading \<open>v\<close>, or with the flag the
  table's patch for the line) and the bundle of the OS; with any other major
  the result is null for every OS identifier and either flag, as for
  \<open>5.0.0\<close>.
\<close>

theorem ocBundleURL_mirror_base:
  assumes "version \<noteq> []" and "exec reMajor (stripV version) = Some m"
  shows "(toNumber m = 3 \<and> getOcBundleByOS k osType = Some b \<longrightarrow>
            ocBundleURL k u (Some version) osType False =
              Some (render (u ''openshiftV3BaseUrl'') @ ''/'' @ stripV version @ ''/'' @ b)) \<and>
         (toNumber m = 4 \<and> getOcBundleByOS k osType = Some b \<longrightarrow>
            ocBundleURL k u (Some version) osType False =
              Some (render (u ''openshiftV4BaseUrl'') @ ''/'' @ stripV version @ ''/'' @ b)) \<and>
         (toNumber m \<noteq> 3 \<and> toNumber m \<noteq> 4 \<longrightarrow>
            ocBundleURL k u (Some version) osType latest = None) \<and>
         ocBundleURL k u (Some ''5.0.0'') osType' latest' = None \<and>
         (toNumber m = 3 \<and> getOcBundleByOS k osType = Some b \<and>
          exec reMajorMinor (stripV version) = Some baseVersion \<and>
          u (''oc'' @ baseVersion) = Some patch \<and> patch \<noteq> [] \<longrightarrow>
            ocBundleURL k u (Some version) osType True =
              Some (render (u ''openshiftV3BaseUrl'') @ ''/'' @ patch @ ''/'' @ b)) \<and>
         (toNumber m = 4 \<and> getOcBundleByOS k osType = Some b \<and>
          exec reMajorMinor (stripV version) = Some baseVersion \<and>
          u (''oc'' @ baseVersion) = Some patch \<and> patch \<noteq> [] \<longrightarrow>
            ocBundleURL k u (Some version) osType True =
              Some (render (u ''openshiftV4BaseUrl'') @ ''/'' @ patch @ ''/'' @ b)) \<and>
         (ocBundleURL k u (Some version) osType latest = Some url \<longrightarrow>
            (toNumber m = 3 \<and>
             take (length (render (u ''openshiftV3BaseUrl'') @ ''/'')) url =
               render (u ''openshiftV3BaseUrl'') @ ''/'') \<or>
            (toNumber m = 4 \<and>
             take (length (render (u ''openshiftV4BaseUrl'') @ ''/'')) url =
               render (u ''openshiftV4BaseUrl'') @ ''/''))"
proof -
  have "toNumber ''5'' \<noteq> 3" "toNumber ''5'' \<noteq> 4" by (simp_all add: toNumber_def)
  with exec_reMajor_5 have five: "ocBundleURL k u (Some ''5.0.0'') osType' latest' = None"
    by (rule ocBundleURL_other_major)
  have plain: "(toNumber m = 3 \<and> getOcBundleByOS k osType = Some b \<longrightarrow>
            ocBundleURL k u (Some version) osType False =
              Some (render (u ''openshiftV3BaseUrl'') @ ''/'' @ stripV version @ ''/'' @ b)) \<and>
         (toNumber m = 4 \<and> getOcBundleByOS k osType = Some b \<longrightarrow>
            ocBundleURL k u (Some version) osType False =
              Some (render (u ''openshiftV4BaseUrl'') @ ''/'' @ stripV version @ ''/'' @ b)) \<and>
         (toNumber m \<noteq> 3 \<and> toNumber m \<noteq> 4 \<longrightarrow>
            ocBundleURL k u (Some version) osType latest = None)"
    using ocBundleURL_plain [OF assms, of k u osType]
      ocBundleURL_other_major [OF assms(2), of k u osType latest]
    by simp
  have flag: "ocBundleURL k u (Some version) osType True =
        Some (render (u (if n = 3 then ''openshiftV3BaseUrl'' else ''openshiftV4BaseUrl''))
              @ ''/'' @ patch @ ''/'' @ b)"
    if "toNumber m = n" "n = 3 \<or> n = 4" "getOcBundleByOS k osType = Some b"
       "exec reMajorMinor (stripV version) = Some baseVersion"
       "u (''oc'' @ baseVersion) = Some patch" "patch \<noteq> []" for n
    using ocBundleURL_latest [of version m baseVersion u patch k osType] assms that by auto
  have start: "(toNumber m = 3 \<and>
             take (length (render (u ''openshiftV3BaseUrl'') @ ''/'')) url =
               render (u ''openshiftV3BaseUrl'') @ ''/'') \<or>
            (toNumber m = 4 \<and>
             take (length (render (u ''openshiftV4BaseUrl'') @ ''/'')) url =
               render (u ''openshiftV4BaseUrl'') @ ''/'')"
    if "ocBundleURL k u (Some version) osType latest = Some url"
    using ocBundleURL_shape [OF that assms(2)] by auto
  from five plain flag [of 3] flag [of 4] start show ?thesis by auto
qed

theorem ocBundleURL_mirror_base_witness:
  "exec reMajor (stripV ''v3.11.0'') = Some ''3'' \<and>
   ocBundleURL specConstants sampleOcUtils (Some ''v3.11.0'') ''Linux'' False =
     Some ''https://mirror/v3/3.11.0/linux/oc.tar.gz'' \<and>
   ocBundleURL specConstants sampleOcUtils (Some ''v3.11.0'') ''Linux'' True =
     Some ''https://mirror/v3/3.11.153/linux/oc.tar.gz'' \<and>
   ocBundleURL specConstants sampleOcUtils (Some ''4.1.0'') ''Darwin'' False =
     Some ''https://mirror/v4/4.1.0/macosx/oc.tar.gz'' \<and>
   ocBundleURL specConstants sampleOcUtils (Some ''4.1.0'') ''Darwin'' True =
     Some ''https://mirror/v4/4.1.18/macosx/oc.tar.gz'' \<and>
   ocBundleURL specConstants sampleOcUtils (Some ''5.0.0'') ''Linux'' True = None"
proof -
  have m3: "exec reMajor (stripV ''v3.11.0'') = Some ''3''"
    by (simp add: stripV_def substr_def reMajor_def isDigit_def)
  have m4: "exec reMajor (stripV ''4.1.0'') = Some ''4''"
    by (simp add: stripV_def substr_def reMajor_def isDigit_def)
  have b3: "exec reMajorMinor (stripV ''v3.11.0'') = Some ''3.11''"
    by (simp add: stripV_def substr_def reMajorMinor_def isDigit_def)
  have b4: "exec reMajorMinor (stripV ''4.1.0'') = Some ''4.1''"
    by (simp add: stripV_def substr_def reMajorMinor_def isDigit_def)
  have n: "toNumber ''3'' = 3" "toNumber ''4'' = 4" by (simp_all add: toNumber_def)
  have b: "getOcBundleByOS specConstants ''Linux'' = Some ''linux/oc.tar.gz''"
          "getOcBundleByOS specConstants ''Darwin'' = Some ''macosx/oc.tar.gz''"
    by (simp_all add: getOcBundleByOS_def specConstants_def)
  have t: "sampleOcUtils ''oc3.11'' = Some ''3.11.153''" "sampleOcUtils ''oc4.1'' = Some ''4.1.18''"
    by (simp_all add: sampleOcUtils_def)
  show ?thesis
    using m3 n b b3 b4 t
      ocBundleURL_mirror_base [OF _ m3, where k = specConstants and osType = "''Linux''"
        and b = "''linux/oc.tar.gz''" and u = sampleOcUtils and latest = False
        and osType' = "''Linux''" and latest' = True and baseVersion = "''3.11''"
        and patch = "''3.11.153''" and url = "[]"]
      ocBundleURL_mirror_base [OF _ m4, where k = specConstants and osType = "''Darwin''"
        and b = "''macosx/oc.tar.gz''" and u = sampleOcUtils and latest = False
        and osType' = "''Linux''" and latest' = True and baseVersion = "''4.1''"
        and patch = "''4.1.18''" and url = "[]"]
    by (simp add: sampleOcUtils_def render_def stripV_def substr_def)
qed

text \<open>
  C10. The pattern for the major version is not anchored: \<open>exec reMajor\<close>
  returns the first maximal run of digits, anywhere in the text, whose next
  character is a dot. For \<open>3x4.1.0\<close> the run \<open>3\<close> is followed by \<open>x\<close>, so the
  major is 4, the v4 mirror is used, and the URL keeps the whole text
  \<open>3x4.1.0\<close> as its version segment.
\<close>

theorem major_not_anchored:
  "exec reMajor s = firstDigitRunBeforeDot s \<and>
   exec reMajor (stripV ''3x4.1.0'') = Some ''4'' \<and>
   toNumber ''4'' = 4 \<and>
   (getOcBundleByOS k osType = Some b \<longrightarrow>
      ocBundleURL k u (Some ''3x4.1.0'') osType False =
        Some (render (u ''openshiftV4BaseUrl'') @ ''/3x4.1.0/'' @ b))"
proof -
  have a: "exec reMajor (stripV ''3x4.1.0'') = Some ''4''"
    by (simp add: stripV_def reMajor_def isDigit_def)
  have b: "toNumber ''4'' = 4" by (simp add: toNumber_def)
  have c: "getOcBundleByOS k osType = Some b \<longrightarrow>
      ocBundleURL k u (Some ''3x4.1.0'') osType False =
        Some (render (u ''openshiftV4BaseUrl'') @ ''/3x4.1.0/'' @ b)"
    using bundle_not_empty [of k osType b] by (simp add: resolver_defs)
  show ?thesis using exec_reMajor_scan a b c by blast
qed

theorem major_not_anchored_witness:
  "getOcBundleByOS specConstants ''Linux'' = Some ''linux/oc.tar.gz'' \<and>
   ocBundleURL specConstants sampleOcUtils (Some ''3x4.1.0'') ''Linux'' False =
     Some ''https://mirror/v4/3x4.1.0/linux/oc.tar.gz'' \<and>
   firstDigitRunBeforeDot ''3x4.1.0'' = Some ''4''"
  using major_not_anchored [of "''3x4.1.0''" specConstants "''Linux''" "''linux/oc.tar.gz''" sampleOcUtils]
  by (simp add: getOcBundleByOS_def specConstants_def sampleOcUtils_def render_def stripV_def isDigit_def)

text \<open>
  C1, as stated, fails: for the version \<open>4.1\<close> and \<open>Windows_NT\<close> the first
  resolution gives the URL of \<open>4.1\<close> below the v4 base, but the second one, with
  the latest-patch flag, returns null although the table has an entry for
  the line 4.1, and the install is rejected.
\<close>

theorem fallback_4_1_counterexample:
  "ocBundleURL specConstants sampleOcUtils (Some ''4.1'') ''Windows_NT'' False =
     Some ''https://mirror/v4/4.1/windows/oc.zip'' \<and>
   sampleOcUtils ''oc4.1'' = Some ''4.1.18'' \<and>
   fetchOk sampleEnv (Some ''https://mirror/v4/4.1/windows/oc.zip'') = Some False \<and>
   ocBundleURL specConstants sampleOcUtils (Some ''4.1'') ''Windows_NT'' True = None \<and>
   fst (installOc sampleEnv specConstants (Some ''4.1'') ''Windows_NT'' False emptyWorld) =
     Inl (Rejected ''Unable to determine oc download URL.'')"
  by (simp add: resolver_defs install_defs pathExists_def sampleEnv_def specConstants_def
      sampleOcUtils_def emptyWorld_def)

text \<open>
  C1, amended. For \<open>4.1\<close> and \<open>Windows_NT\<close> the first resolution gives the v4
  base followed by \<open>/4.1/\<close> and the Windows bundle. The pattern for
  \<open>MAJOR.MINOR\<close> must be followed by a dot, so it does not match \<open>4.1\<close> and
  the resolution with the latest-patch flag returns null. For a version with a
  patch component, as \<open>4.1.0\<close>, the pattern gives \<open>4.1\<close>; when the table has a
  non-empty entry for \<open>oc4.1\<close>, the resolution returns the v4 base followed by
  that entry and the bundle, and this is the URL the install uses when the
  probe of the first URL answers with a status that is not ok.
\<close>

theorem fallback_needs_patch_component:
  "ocBundleURL k u (Some ''4.1'') ''Windows_NT'' False =
     Some (render (u ''openshiftV4BaseUrl'') @ ''/4.1/'' @ WIN k @ ''/'' @ OC_ZIP k) \<and>
   exec reMajorMinor ''4.1'' = None \<and>
   ocBundleURL k u (Some ''4.1'') ''Windows_NT'' True = None \<and>
   exec reMajorMinor ''4.1.0'' = Some ''4.1'' \<and>
   (u ''oc4.1'' = Some patch \<and> patch \<noteq> [] \<longrightarrow>
      ocBundleURL k u (Some ''4.1.0'') ''Windows_NT'' True =
        Some (render (u ''openshiftV4BaseUrl'') @ ''/'' @ patch @ ''/'' @ WIN k @ ''/'' @ OC_ZIP k)) \<and>
   (u = ocUtilsJson e \<and> \<not> isWebUri e ''4.1.0'' \<and>
    fetchOk e (ocBundleURL k u (Some ''4.1.0'') ''Windows_NT'' False) = Some False \<longrightarrow>
      installUrl e k (Some ''4.1.0'') ''Windows_NT'' =
        Inr (ocBundleURL k u (Some ''4.1.0'') ''Windows_NT'' True))"
proof -
  have probe: "u = ocUtilsJson e \<and> \<not> isWebUri e ''4.1.0'' \<and>
    fetchOk e (ocBundleURL k u (Some ''4.1.0'') ''Windows_NT'' False) = Some False \<longrightarrow>
      installUrl e k (Some ''4.1.0'') ''Windows_NT'' =
        Inr (ocBundleURL k u (Some ''4.1.0'') ''Windows_NT'' True)"
    by (auto simp: installUrl_def render_def Let_def)
  have resolve: "ocBundleURL k u (Some ''4.1'') ''Windows_NT'' False =
     Some (render (u ''openshiftV4BaseUrl'') @ ''/4.1/'' @ WIN k @ ''/'' @ OC_ZIP k) \<and>
   exec reMajorMinor ''4.1'' = None \<and>
   ocBundleURL k u (Some ''4.1'') ''Windows_NT'' True = None \<and>
   exec reMajorMinor ''4.1.0'' = Some ''4.1'' \<and>
   (u ''oc4.1'' = Some patch \<and> patch \<noteq> [] \<longrightarrow>
      ocBundleURL k u (Some ''4.1.0'') ''Windows_NT'' True =
        Some (render (u ''openshiftV4BaseUrl'') @ ''/'' @ patch @ ''/'' @ WIN k @ ''/'' @ OC_ZIP k))"
    by (simp add: resolver_defs getOcBundleByOS_def)
  from resolve probe show ?thesis by blast
qed

theorem fallback_needs_patch_component_witness:
  "sampleOcUtils ''oc4.1'' = Some ''4.1.18'' \<and>
   ocBundleURL specConstants sampleOcUtils (Some ''4.1.0'') ''Windows_NT'' True =
     Some ''https://mirror/v4/4.1.18/windows/oc.zip'' \<and>
   installUrl sampleEnv specConstants (Some ''4.1.0'') ''Windows_NT'' =
     Inr (Some ''https://mirror/v4/4.1.18/windows/oc.zip'')"
proof -
  have first: "ocBundleURL specConstants sampleOcUtils (Some ''4.1.0'') ''Windows_NT'' False =
      Some ''https://mirror/v4/4.1.0/windows/oc.zip''"
    by (simp add: resolver_defs getOcBundleByOS_def specConstants_def sampleOcUtils_def)
  show ?thesis
    using first fallback_needs_patch_component [of specConstants sampleOcUtils "''4.1.18''" sampleEnv]
    by (simp add: specConstants_def sampleOcUtils_def render_def sampleEnv_def)
qed


section \<open>Properties of the install orchestration\<close>

text \<open>
  C2, as stated, fails: the rejection for an unresolved latest version carries
  the text \<open>Unable to determine latest oc download URL\<close>, not the text of the
  claim.
\<close>

theorem installOc_messages_counterexample:
  "latestStable specConstants (ocUtilsJson sampleEnv) ''fakeOS'' = None \<and>
   fst (installOc sampleEnv specConstants None ''fakeOS'' False emptyWorld)
     = Inl (Rejected ''Unable to determine latest oc download URL'') \<and>
   fst (installOc sampleEnv specConstants None ''fakeOS'' False emptyWorld)
     \<noteq> Inl (Rejected ''unable to determine latest download URL'')"
  by (simp add: install_defs falsy_def)

text \<open>
  C2, amended. When no local \<open>oc\<close> is reused, \<open>installOc\<close> rejects with
  these strings: \<open>Unable to determine latest oc download URL\<close> when no version
  is given and \<open>latestStable\<close> returns null; \<open>Unable to determine oc download URL.\<close>
  when the URL is null after the fallback attempt (as it is when the probe
  answers with a status that is not ok and the second resolution returns
  null); \<open>Unable to download or extract oc binary.\<close> when
  \<open>downloadAndExtract\<close> returns null.
\<close>

theorem installOc_rejections:
  assumes "falsy (if useLocalOc then getLocalOcPath e version else None)"
    and "downloadVersion =
           (if falsy version then latestStable k (ocUtilsJson e) osType else version)"
  shows "(falsy version \<and> latestStable k (ocUtilsJson e) osType = None \<longrightarrow>
            installOc e k version osType useLocalOc w =
              (Inl (Rejected ''Unable to determine latest oc download URL''), w)) \<and>
         (\<not> falsy downloadVersion \<and> fst (ensureDownloadDir e w) = Inr () \<and>
          installUrl e k downloadVersion osType = Inr None \<longrightarrow>
            fst (installOc e k version osType useLocalOc w) =
              Inl (Rejected ''Unable to determine oc download URL.'')) \<and>
         (\<not> isWebUri e (render downloadVersion) \<and>
          fetchOk e (ocBundleURL k (ocUtilsJson e) downloadVersion osType False) = Some False \<and>
          ocBundleURL k (ocUtilsJson e) downloadVersion osType True = None \<longrightarrow>
            installUrl e k downloadVersion osType = Inr None) \<and>
         (\<not> falsy downloadVersion \<and> fst (ensureDownloadDir e w) = Inr () \<and>
          installUrl e k downloadVersion osType = Inr (Some url) \<and>
          fst (downloadAndExtract e url (downloadDirOf e) osType (snd (ensureDownloadDir e w)))
            = Inr None \<longrightarrow>
            fst (installOc e k version osType useLocalOc w) =
              Inl (Rejected ''Unable to download or extract oc binary.''))"
proof -
  have a: "falsy version \<and> latestStable k (ocUtilsJson e) osType = None \<longrightarrow>
            installOc e k version osType useLocalOc w =
              (Inl (Rejected ''Unable to determine latest oc download URL''), w)"
    using assms(1) by (simp add: installOc_def Let_def)
  have nz: "\<not> (falsy version \<and> downloadVersion = None)" if "\<not> falsy downloadVersion"
    using that by (cases downloadVersion) (auto simp: falsy_def)
  have b: "\<not> falsy downloadVersion \<and> fst (ensureDownloadDir e w) = Inr () \<and>
          installUrl e k downloadVersion osType = Inr None \<longrightarrow>
            fst (installOc e k version osType useLocalOc w) =
              Inl (Rejected ''Unable to determine oc download URL.'')"
    using assms nz by (auto simp: installOc_def Let_def)
  have c: "\<not> isWebUri e (render downloadVersion) \<and>
          fetchOk e (ocBundleURL k (ocUtilsJson e) downloadVersion osType False) = Some False \<and>
          ocBundleURL k (ocUtilsJson e) downloadVersion osType True = None \<longrightarrow>
            installUrl e k downloadVersion osType = Inr None"
    by (auto simp: installUrl_def Let_def)
  have d: "\<not> falsy downloadVersion \<and> fst (ensureDownloadDir e w) = Inr () \<and>
          installUrl e k downloadVersion osType = Inr (Some url) \<and>
          fst (downloadAndExtract e url (downloadDirOf e) osType (snd (ensureDownloadDir e w)))
            = Inr None \<longrightarrow>
            fst (installOc e k version osType useLocalOc w) =
              Inl (Rejected ''Unable to download or extract oc binary.'')"
    using assms nz by (auto simp: installOc_def Let_def)
  from a b c d show ?thesis by blast
qed

theorem installOc_rejections_witness:
  "fst (installOc sampleEnv specConstants None ''fakeOS'' False emptyWorld)
     = Inl (Rejected ''Unable to determine latest oc download URL'') \<and>
   fst (installOc sampleEnv specConstants (Some ''4.2.0'') ''Linux'' False emptyWorld)
     = Inl (Rejected ''Unable to determine oc download URL.'') \<and>
   fst (installOc sampleEnv specConstants (Some ''4.1.0'') ''Linux'' False emptyWorld)
     = Inl (Rejected ''Unable to download or extract oc binary.'')"
proof -
  have u: "ocUtilsJson sampleEnv = sampleOcUtils" by (simp add: sampleEnv_def)
  have l: "latestStable specConstants sampleOcUtils ''fakeOS'' = None"
    by (simp add: latestStable_def getOcBundleByOS_def falsy_def)
  have two: "ocBundleURL specConstants sampleOcUtils (Some ''4.2.0'') ''Linux'' False =
               Some ''https://mirror/v4/4.2.0/linux/oc.tar.gz''"
            "ocBundleURL specConstants sampleOcUtils (Some ''4.2.0'') ''Linux'' True = None"
    by (simp_all add: resolver_defs getOcBundleByOS_def specConstants_def sampleOcUtils_def)
  have four: "installUrl sampleEnv specConstants (Some ''4.1.0'') ''Linux''
      = Inr (Some ''https://mirror/v4/4.1.18/linux/oc.tar.gz'')"
    by (simp add: installUrl_def resolver_defs getOcBundleByOS_def specConstants_def
        sampleEnv_def sampleOcUtils_def)
  have web: "\<not> isWebUri sampleEnv ''4.2.0''"
    "fetchOk sampleEnv (Some ''https://mirror/v4/4.2.0/linux/oc.tar.gz'') = Some False"
    by (simp_all add: sampleEnv_def)
  have dir: "downloadDirOf sampleEnv = ''/w/.download''"
    by (simp add: downloadDirOf_def sampleEnv_def render_def)
  show ?thesis
    using u l two four web dir sample_dir sample_linux_call
      installOc_rejections [of False sampleEnv None None specConstants "''fakeOS''" emptyWorld]
      installOc_rejections [of False sampleEnv "Some ''4.2.0''" "Some ''4.2.0''" specConstants
        "''Linux''" emptyWorld]
      installOc_rejections [of False sampleEnv "Some ''4.1.0''" "Some ''4.1.0''" specConstants
        "''Linux''" emptyWorld "''https://mirror/v4/4.1.18/linux/oc.tar.gz''"]
    by (simp add: falsy_def render_def)
qed


section \<open>Properties of download and extraction\<close>

text \<open>
  C3, as stated, fails: when the transfer fails, the archive is not there at
  the second call, and each of the two calls makes a transfer.
\<close>

theorem download_twice_counterexample:
  "curlOk offlineEnv ''https://mirror/v4/4.1.18/windows/oc.zip'' = False \<and>
   transfers (snd (downloadAndExtract offlineEnv ''https://mirror/v4/4.1.18/windows/oc.zip''
      ''/w/.download'' ''Windows_NT''
      (snd (downloadAndExtract offlineEnv ''https://mirror/v4/4.1.18/windows/oc.zip''
         ''/w/.download'' ''Windows_NT'' (emptyWorld\<lparr>files := {''/w/.download''}\<rparr>)))))
     = [(''/w/.download/oc.zip'', ''https://mirror/v4/4.1.18/windows/oc.zip''),
        (''/w/.download/oc.zip'', ''https://mirror/v4/4.1.18/windows/oc.zip'')]"
  by (simp add: download_defs path_defs offlineEnv_def sampleEnv_def emptyWorld_def Let_def)

text \<open>
  C3, amended. For every URL and directory: when the file named after the last
  piece of the URL exists in the directory, \<open>downloadAndExtract\<close> makes no
  transfer. A call makes at most one transfer, to that archive path. When the
  first call did not fail in the transfer, a second call with the same URL and
  directory makes no transfer, so the two calls together make at most one; and
  when the URL is not empty and the directory exists, the file is at the same
  archive path after the first call and after the second.
\<close>

theorem download_idempotent:
  assumes ap: "archivePath = pathJoin (pathNormalize downloadDir) (archiveOf url)"
    and w1: "w1 = snd (downloadAndExtract e url downloadDir osType w)"
    and w2: "w2 = snd (downloadAndExtract e url downloadDir osType w1)"
  shows "(pathExists w archivePath \<longrightarrow> transfers w1 = transfers w) \<and>
         (transfers w1 = transfers w \<or> transfers w1 = transfers w @ [(archivePath, url)]) \<and>
         (fst (downloadAndExtract e url downloadDir osType w) \<noteq> Inl (External ''curl'') \<longrightarrow>
            transfers w2 = transfers w1) \<and>
         (fst (downloadAndExtract e url downloadDir osType w) \<noteq> Inl (External ''curl'') \<and>
          url \<noteq> [] \<and> pathExists w (pathNormalize downloadDir) \<longrightarrow>
            pathExists w1 archivePath \<and> pathExists w2 archivePath)"
proof (cases "url = [] \<or> \<not> pathExists w (pathNormalize downloadDir)")
  case True
  then have "w1 = w" using w1 by (simp add: downloadAndExtract_skip)
  with True w2 have "w2 = w" by (simp add: downloadAndExtract_skip)
  with \<open>w1 = w\<close> True show ?thesis by auto
next
  case False
  then have u: "url \<noteq> []" and d: "pathExists w (pathNormalize downloadDir)" by auto
  have one: "pathExists w archivePath \<longrightarrow> transfers w1 = transfers w"
    using ap w1 by (simp add: downloadAndExtract_no_transfer)
  have two: "transfers w1 = transfers w \<or> transfers w1 = transfers w @ [(archivePath, url)]"
    using downloadAndExtract_state [OF u d ap refl, of e osType] curl_effect [of e archivePath url w] w1
    by auto
  have three: "transfers w2 = transfers w1 \<and> pathExists w1 archivePath \<and> pathExists w2 archivePath"
    if ok: "fst (downloadAndExtract e url downloadDir osType w) \<noteq> Inl (External ''curl'')"
  proof -
    have keep: "pathExists w1 archivePath" "pathExists w1 (pathNormalize downloadDir)"
      using downloadAndExtract_keeps_archive [OF u d ap ok w1] by auto
    have same: "transfers w2 = transfers w1"
      using keep(1) ap w2 by (simp add: downloadAndExtract_no_transfer)
    have "files w1 \<subseteq> files w2"
      using downloadAndExtract_state [OF u keep(2) ap refl, of e osType] keep(1) w2 by simp
    with keep(1) have "pathExists w2 archivePath" by (rule pathExists_mono)
    with same keep(1) show ?thesis by simp
  qed
  from one two three show ?thesis by blast
qed

theorem download_idempotent_witness:
  "pathExists (emptyWorld\<lparr>files := {''/w/.download''}\<rparr>) (pathNormalize ''/w/.download'') \<and>
   transfers (snd (downloadAndExtract sampleEnv ''https://mirror/v4/4.1.18/windows/oc.zip''
      ''/w/.download'' ''Windows_NT'' (emptyWorld\<lparr>files := {''/w/.download''}\<rparr>)))
     = [(''/w/.download/oc.zip'', ''https://mirror/v4/4.1.18/windows/oc.zip'')] \<and>
   transfers (snd (downloadAndExtract sampleEnv ''https://mirror/v4/4.1.18/windows/oc.zip''
      ''/w/.download'' ''Windows_NT''
      (snd (downloadAndExtract sampleEnv ''https://mirror/v4/4.1.18/windows/oc.zip''
         ''/w/.download'' ''Windows_NT'' (emptyWorld\<lparr>files := {''/w/.download''}\<rparr>)))))
     = [(''/w/.download/oc.zip'', ''https://mirror/v4/4.1.18/windows/oc.zip'')] \<and>
   pathExists (snd (downloadAndExtract sampleEnv ''https://mirror/v4/4.1.18/windows/oc.zip''
      ''/w/.download'' ''Windows_NT''
      (snd (downloadAndExtract sampleEnv ''https://mirror/v4/4.1.18/windows/oc.zip''
         ''/w/.download'' ''Windows_NT'' (emptyWorld\<lparr>files := {''/w/.download''}\<rparr>)))))
     ''/w/.download/oc.zip''"
proof -
  have dir: "pathExists (emptyWorld\<lparr>files := {''/w/.download''}\<rparr>) (pathNormalize ''/w/.download'')"
    by (simp add: pathExists_def path_defs emptyWorld_def Let_def)
  have ap: "pathJoin (pathNormalize ''/w/.download'') (archiveOf ''https://mirror/v4/4.1.18/windows/oc.zip'')
      = ''/w/.download/oc.zip''"
    by (simp add: path_defs Let_def)
  show ?thesis
    using dir ap sample_first_call
      download_idempotent [OF refl refl refl, where e = sampleEnv
        and url = "''https://mirror/v4/4.1.18/windows/oc.zip''" and downloadDir = "''/w/.download''"
        and osType = "''Windows_NT''" and w = "emptyWorld\<lparr>files := {''/w/.download''}\<rparr>"]
    by simp
qed

text \<open>
  C8. The archive \<open>oc.tar.xz\<close> has the extension \<open>.xz\<close>, which is none of
  \<open>.zip\<close>, \<open>.tgz\<close> and \<open>.tar.gz\<close>; the code takes it for \<open>.tar.gz\<close>, because
  the name without the extension ends in \<open>.tar\<close>, and does not raise the
  error for an unknown archive format, which it raises for \<open>oc.rar\<close> with the
  archive path in the text.
\<close>

theorem tar_xz_dispatched_as_tar_gz:
  "extname ''oc.tar.xz'' = ''.xz'' \<and>
   archiveTypeOf ''oc.tar.xz'' = ''.tar.gz'' \<and>
   fst (downloadAndExtract sampleEnv ''https://mirror/oc.tar.xz'' ''/w/.download'' ''Linux''
          (emptyWorld\<lparr>files := {''/w/.download''}\<rparr>)) = Inr None \<and>
   fst (downloadAndExtract sampleEnv ''https://mirror/oc.rar'' ''/w/.download'' ''Linux''
          (emptyWorld\<lparr>files := {''/w/.download''}\<rparr>))
     = Inl (Rejected ''unknown archive format /w/.download/oc.rar'')"
  by (simp add: download_defs path_defs sampleEnv_def emptyWorld_def Let_def)


section \<open>Properties of the registration in \<open>PATH\<close>\<close>

text \<open>
  C4. \<open>addOcToPath\<close> throws the error \<open>path cannot be null or empty\<close> exactly
  when the path is null or the empty string, and does not throw for any other
  path. For \<open>Windows_NT\<close> it puts the text before the last backslash of the
  path, then a semicolon, in front of the value of \<open>PATH\<close>; for any other OS
  the text before the last slash, then a colon. For a path without the
  separator the text before it is empty.
\<close>

theorem addOcToPath_prepends:
  "(fst (addOcToPath ocPath osType w) = Inl (Thrown ''path cannot be null or empty'')
      \<longleftrightarrow> ocPath = None \<or> ocPath = Some []) \<and>
   (ocPath \<noteq> None \<and> ocPath \<noteq> Some [] \<longrightarrow> fst (addOcToPath ocPath osType w) = Inr ()) \<and>
   (CHR 0x5C \<notin> set base \<longrightarrow>
      addOcToPath (Some (dir @ CHR 0x5C # base)) ''Windows_NT'' w =
        (Inr (), setVariable ''PATH'' (dir @ '';'' @ render (getVariable w ''PATH'')) w)) \<and>
   (osType \<noteq> ''Windows_NT'' \<and> CHR ''/'' \<notin> set base \<longrightarrow>
      addOcToPath (Some (dir @ CHR ''/'' # base)) osType w =
        (Inr (), setVariable ''PATH'' (dir @ '':'' @ render (getVariable w ''PATH'')) w)) \<and>
   (base \<noteq> [] \<and> CHR 0x5C \<notin> set base \<longrightarrow>
      addOcToPath (Some base) ''Windows_NT'' w =
        (Inr (), setVariable ''PATH'' ('';'' @ render (getVariable w ''PATH'')) w)) \<and>
   (base \<noteq> [] \<and> osType \<noteq> ''Windows_NT'' \<and> CHR ''/'' \<notin> set base \<longrightarrow>
      addOcToPath (Some base) osType w =
        (Inr (), setVariable ''PATH'' ('':'' @ render (getVariable w ''PATH'')) w))"
proof -
  have a: "fst (addOcToPath ocPath osType w) = Inl (Thrown ''path cannot be null or empty'')
      \<longleftrightarrow> ocPath = None \<or> ocPath = Some []"
    by (simp add: addOcToPath_def Let_def)
  have b: "ocPath \<noteq> None \<and> ocPath \<noteq> Some [] \<longrightarrow> fst (addOcToPath ocPath osType w) = Inr ()"
    by (simp add: addOcToPath_def Let_def)
  have c: "CHR 0x5C \<notin> set base \<longrightarrow>
      addOcToPath (Some (dir @ CHR 0x5C # base)) ''Windows_NT'' w =
        (Inr (), setVariable ''PATH'' (dir @ '';'' @ render (getVariable w ''PATH'')) w)"
    using substr_dir [of "CHR 0x5C" base dir] by (simp add: addOcToPath_def render_def)
  have d: "osType \<noteq> ''Windows_NT'' \<and> CHR ''/'' \<notin> set base \<longrightarrow>
      addOcToPath (Some (dir @ CHR ''/'' # base)) osType w =
        (Inr (), setVariable ''PATH'' (dir @ '':'' @ render (getVariable w ''PATH'')) w)"
    using substr_dir [of "CHR ''/''" base dir] by (simp add: addOcToPath_def render_def)
  have f: "base \<noteq> [] \<and> CHR 0x5C \<notin> set base \<longrightarrow>
      addOcToPath (Some base) ''Windows_NT'' w =
        (Inr (), setVariable ''PATH'' ('';'' @ render (getVariable w ''PATH'')) w)"
    using substr_no_dir [of "CHR 0x5C" base] by (simp add: addOcToPath_def render_def)
  have g: "base \<noteq> [] \<and> osType \<noteq> ''Windows_NT'' \<and> CHR ''/'' \<notin> set base \<longrightarrow>
      addOcToPath (Some base) osType w =
        (Inr (), setVariable ''PATH'' ('':'' @ render (getVariable w ''PATH'')) w)"
    using substr_no_dir [of "CHR ''/''" base] by (simp add: addOcToPath_def render_def)
  show ?thesis using a b c d f g by blast
qed

theorem addOcToPath_prepends_witness:
  "CHR ''/'' \<notin> set ''oc'' \<and>
   fst (addOcToPath (Some ''/a/b/oc'') ''Linux'' (emptyWorld\<lparr>variables := [''PATH'' \<mapsto> ''/usr/bin'']\<rparr>)) = Inr () \<and>
   variables (snd (addOcToPath (Some ''/a/b/oc'') ''Linux''
       (emptyWorld\<lparr>variables := [''PATH'' \<mapsto> ''/usr/bin'']\<rparr>))) ''PATH'' = Some ''/a/b:/usr/bin'' \<and>
   fst (addOcToPath None ''Linux'' emptyWorld) = Inl (Thrown ''path cannot be null or empty'') \<and>
   fst (addOcToPath (Some []) ''Linux'' emptyWorld) = Inl (Thrown ''path cannot be null or empty'')"
  using addOcToPath_prepends [of "Some ''/a/b/oc''" "''Linux''"
      "emptyWorld\<lparr>variables := [''PATH'' \<mapsto> ''/usr/bin'']\<rparr>" "''oc''" "''/a/b''"]
    addOcToPath_prepends [of None "''Linux''" emptyWorld "''oc''" "''/a/b''"]
    addOcToPath_prepends [of "Some []" "''Linux''" emptyWorld "''oc''" "''/a/b''"]
  by (simp add: setVariable_def getVariable_def render_def emptyWorld_def)


section \<open>Properties of the reuse of a local \<open>oc\<close>\<close>

text \<open>
  C9. The version that \<open>getOcVersion\<close> extracts always starts with \<open>v\<close>. When a
  version is requested and an \<open>oc\<close> is found, \<open>getLocalOcPath\<close> returns its
  path exactly when a version is extracted and equals the requested one after
  both are put in lower case. A requested version that starts with neither
  \<open>v\<close> nor \<open>V\<close>, as \<open>4.1.0\<close>, never matches, and no path is reused. When no
  version is requested, the path found is returned.
\<close>

theorem getLocalOcPath_version_match:
  "(getOcVersion e ocPath = Some localOcVersion \<longrightarrow> take 1 localOcVersion = ''v'') \<and>
   (whichOc e = Some ocPath \<and> ocPath \<noteq> [] \<and> version \<noteq> [] \<longrightarrow>
      getLocalOcPath e (Some version) =
        (if toLowerCase (render (getOcVersion e ocPath)) = toLowerCase version \<and>
            getOcVersion e ocPath \<noteq> None
         then Some ocPath else None)) \<and>
   (version \<noteq> [] \<and> take 1 version \<noteq> ''v'' \<and> take 1 version \<noteq> ''V'' \<longrightarrow>
      falsy (getLocalOcPath e (Some version))) \<and>
   falsy (getLocalOcPath e (Some ''4.1.0'')) \<and>
   (falsy version0 \<longrightarrow> getLocalOcPath e version0 = whichOc e)"
proof -
  have a: "getOcVersion e ocPath = Some localOcVersion \<longrightarrow> take 1 localOcVersion = ''v''"
    using getOcVersion_v [of e ocPath localOcVersion] by auto
  have b: "whichOc e = Some ocPath \<and> ocPath \<noteq> [] \<and> version \<noteq> [] \<longrightarrow>
      getLocalOcPath e (Some version) =
        (if toLowerCase (render (getOcVersion e ocPath)) = toLowerCase version \<and>
            getOcVersion e ocPath \<noteq> None
         then Some ocPath else None)"
    using getOcVersion_v [of e ocPath]
    by (cases "getOcVersion e ocPath") (auto simp: getLocalOcPath_def Let_def falsy_def render_def)
  have c: "falsy (getLocalOcPath e (Some v))" if "v \<noteq> []" "take 1 v \<noteq> ''v''" "take 1 v \<noteq> ''V''" for v
  proof (cases "falsy (whichOc e)")
    case True
    then show ?thesis by (simp add: getLocalOcPath_def Let_def)
  next
    case False
    then obtain p where p: "whichOc e = Some p" "p \<noteq> []"
      by (auto simp: falsy_def split: option.splits)
    show ?thesis
    proof (cases "getOcVersion e p")
      case None
      with p that show ?thesis by (simp add: getLocalOcPath_def Let_def falsy_def render_def)
    next
      case (Some lv)
      then obtain t where "lv = CHR ''v'' # t" using getOcVersion_v by blast
      with that toLowerCase_v [of v t] have "toLowerCase lv \<noteq> toLowerCase v" by auto
      with p that Some show ?thesis by (simp add: getLocalOcPath_def Let_def falsy_def render_def)
    qed
  qed
  have d: "falsy (getLocalOcPath e (Some ''4.1.0''))" by (rule c) simp_all
  have f: "falsy version0 \<longrightarrow> getLocalOcPath e version0 = whichOc e"
    by (simp add: getLocalOcPath_def Let_def)
  show ?thesis using a b c [of version] d f by blast
qed

theorem getLocalOcPath_version_match_witness:
  "getOcVersion sampleEnv ''/usr/bin/oc'' = Some ''v4.1.0'' \<and>
   getLocalOcPath sampleEnv (Some ''V4.1.0'') = Some ''/usr/bin/oc'' \<and>
   getLocalOcPath sampleEnv (Some ''v4.1.1'') = None \<and>
   falsy (getLocalOcPath sampleEnv (Some ''4.1.0'')) \<and>
   getLocalOcPath sampleEnv None = Some ''/usr/bin/oc''"
proof -
  have v: "getOcVersion sampleEnv ''/usr/bin/oc'' = Some ''v4.1.0''"
    by (simp add: getOcVersion_def sampleEnv_def regexVersion_def isDigit_def)
  have w: "whichOc sampleEnv = Some ''/usr/bin/oc''" by (simp add: sampleEnv_def)
  show ?thesis
    using v w
      getLocalOcPath_version_match [of sampleEnv "''/usr/bin/oc''" "''v4.1.0''" "''V4.1.0''" None]
      getLocalOcPath_version_match [of sampleEnv "''/usr/bin/oc''" "''v4.1.0''" "''v4.1.1''" None]
    by (simp add: falsy_def render_def toLowerCase_def lowerChar_def isUpper_def char_of_def bit_Suc_0_iff)
qed

end
